theory Spec2Isabelle
  imports Main
begin

section \<open>JavaScript values used by the client\<close>

text \<open>
  A string is the list of the bytes of its UTF-8 encoding. Every string the modelled code
  inspects character by character (the URL fragment, the text of a number input) is
  ASCII, where a byte is a UTF-16 code unit.

  A Number holding the result of \<open>parseInt\<close> is \<open>NaN\<close> or an integer. The model
  keeps the exact integer; the double of the source holds the same value up to
  \<open>2 ^ 53\<close> in magnitude.
\<close>

datatype jsnum = NaN | Num int

text \<open>Truthiness of a Number: \<open>NaN\<close> and zero are falsy.\<close>

fun truthy_num :: "jsnum \<Rightarrow> bool" where
  "truthy_num NaN = False"
| "truthy_num (Num n) = (n \<noteq> 0)"

text \<open>\<open>a || b\<close> on Numbers.\<close>

definition or_num :: "jsnum \<Rightarrow> jsnum \<Rightarrow> jsnum" where
  "or_num a b = (if truthy_num a then a else b)"

text \<open>\<open>a > 0\<close> on a Number: every comparison with \<open>NaN\<close> is false.\<close>

fun gt_zero :: "jsnum \<Rightarrow> bool" where
  "gt_zero NaN = False"
| "gt_zero (Num n) = (0 < n)"

text \<open>\<open>arr.includes(item)\<close> on an array of strings.\<close>

fun array_includes :: "'a list \<Rightarrow> 'a \<Rightarrow> bool" where
  "array_includes [] item = False"
| "array_includes (x # xs) item = (x = item \<or> array_includes xs item)"

section \<open>The onboarding wizard (Onboarding.jsx)\<close>

subsection \<open>The draft profile\<close>

record formData =
  education :: string
  current_role :: string
  years_experience :: jsnum
  tech_skills :: "string list"
  domain_skills :: "string list"
  soft_skills :: "string list"
  previous_projects :: string
  excited_domains :: "string list"
  hours_per_week :: jsnum
  runway_months :: "jsnum option"
  location :: string
  risk_appetite :: string
  target_roles :: "string list"
  existing_portfolio :: string
  github_url :: string
  network_strength :: string
  learning_mode :: string

definition initialFormData :: formData where
  "initialFormData =
     \<lparr> education = '''', current_role = '''', years_experience = Num 0,
       tech_skills = [], domain_skills = [], soft_skills = [], previous_projects = '''',
       excited_domains = [],
       hours_per_week = Num 10, runway_months = None, location = '''',
       risk_appetite = ''medium'',
       target_roles = [],
       existing_portfolio = '''', github_url = '''', network_strength = ''moderate'',
       learning_mode = ''build-first'' \<rparr>"

text \<open>The five array-valued fields that \<open>toggleArrayItem\<close> is called on.\<close>

datatype array_field = Tech_skills | Domain_skills | Soft_skills | Excited_domains | Target_roles

fun get_field :: "array_field \<Rightarrow> formData \<Rightarrow> string list" where
  "get_field Tech_skills fd = tech_skills fd"
| "get_field Domain_skills fd = domain_skills fd"
| "get_field Soft_skills fd = soft_skills fd"
| "get_field Excited_domains fd = excited_domains fd"
| "get_field Target_roles fd = target_roles fd"

fun set_field :: "array_field \<Rightarrow> string list \<Rightarrow> formData \<Rightarrow> formData" where
  "set_field Tech_skills v fd = fd\<lparr>tech_skills := v\<rparr>"
| "set_field Domain_skills v fd = fd\<lparr>domain_skills := v\<rparr>"
| "set_field Soft_skills v fd = fd\<lparr>soft_skills := v\<rparr>"
| "set_field Excited_domains v fd = fd\<lparr>excited_domains := v\<rparr>"
| "set_field Target_roles v fd = fd\<lparr>target_roles := v\<rparr>"

text \<open>
  \<open>toggleArrayItem(field, item)\<close>: the state updater given to \<open>setFormData\<close>,
  applied to the previous state.
\<close>

definition toggleArrayItem :: "array_field \<Rightarrow> string \<Rightarrow> formData \<Rightarrow> formData" where
  "toggleArrayItem field item prev =
     (let arr = get_field field prev in
      if array_includes arr item
      then set_field field (filter (\<lambda>i. i \<noteq> item) arr) prev
      else set_field field (arr @ [item]) prev)"

text \<open>A sequence of toggles, applied in order from the left.\<close>

fun toggle_all :: "(array_field \<times> string) list \<Rightarrow> formData \<Rightarrow> formData" where
  "toggle_all [] fd = fd"
| "toggle_all ((field, item) # ops) fd = toggle_all ops (toggleArrayItem field item fd)"

subsection \<open>Steps, gates and navigation controls\<close>

datatype step_id = Background | Skills | Interests | Constraints | Goals | Preferences

definition STEPS :: "step_id list" where
  "STEPS = [Background, Skills, Interests, Constraints, Goals, Preferences]"

record onboarding =
  currentStep :: int
  isSubmitting :: bool
  isAnalyzing :: bool
  form :: formData

definition initialOnboarding :: onboarding where
  "initialOnboarding =
     \<lparr> currentStep = 0, isSubmitting = False, isAnalyzing = False, form = initialFormData \<rparr>"

text \<open>
  \<open>canProceed()\<close>, read for its truthiness, which is all its callers use
  (\<open>!canProceed()\<close>): a string is truthy when it is not empty, and \<open>a && b\<close> is
  truthy when both are.
\<close>

definition canProceed :: "onboarding \<Rightarrow> bool" where
  "canProceed s =
     (if currentStep s = 0 then education (form s) \<noteq> [] \<and> current_role (form s) \<noteq> []
      else if currentStep s = 1
        then length (tech_skills (form s)) > 0 \<or> length (domain_skills (form s)) > 0
      else if currentStep s = 2 then length (excited_domains (form s)) > 0
      else if currentStep s = 3 then gt_zero (hours_per_week (form s))
      else if currentStep s = 4 then length (target_roles (form s)) > 0
      else if currentStep s = 5 then True
      else False)"

text \<open>
  What the component renders: the analysing screen, or the wizard with its "Previous"
  button and either the "Next" or the submit button. Each button carries its
  \<open>disabled\<close> attribute.
\<close>

datatype control = NextButton bool | SubmitButton bool

datatype view = AnalyzingView | WizardView bool control

definition render :: "onboarding \<Rightarrow> view" where
  "render s =
     (if isAnalyzing s then AnalyzingView
      else WizardView (currentStep s = 0)
        (if currentStep s < int (length STEPS) - 1
         then NextButton (\<not> canProceed s)
         else SubmitButton (\<not> canProceed s \<or> isSubmitting s)))"

fun disabled :: "control \<Rightarrow> bool" where
  "disabled (NextButton d) = d"
| "disabled (SubmitButton d) = d"

text \<open>The "Next" control (the submit control on the last step) is shown and enabled.\<close>

fun advance_enabled :: "view \<Rightarrow> bool" where
  "advance_enabled AnalyzingView = False"
| "advance_enabled (WizardView p c) = (\<not> disabled c)"

text \<open>
  The gate predicate of each step, in the words of the specification's table, to be
  compared with \<open>canProceed\<close>.
\<close>

fun gate :: "step_id \<Rightarrow> formData \<Rightarrow> bool" where
  "gate Background fd = (education fd \<noteq> '''' \<and> current_role fd \<noteq> '''')"
| "gate Skills fd = (tech_skills fd \<noteq> [] \<or> domain_skills fd \<noteq> [])"
| "gate Interests fd = (excited_domains fd \<noteq> [])"
| "gate Constraints fd = gt_zero (hours_per_week fd)"
| "gate Goals fd = (target_roles fd \<noteq> [])"
| "gate Preferences fd = True"

subsection \<open>The years-of-experience input\<close>

text \<open>
  \<open>parseInt(string)\<close> with no radix, after ECMAScript: leading white space is
  skipped, one sign is read, a \<open>0x\<close> or \<open>0X\<close> prefix selects radix 16 (radix 10
  otherwise), and the longest run of digits of that radix is the value; no digit at all
  gives \<open>NaN\<close>. The white space of an ASCII string is tab, line feed, vertical tab,
  form feed, carriage return and space.
\<close>

definition is_white_space :: "char \<Rightarrow> bool" where
  "is_white_space c = (c \<in> set [CHR 0x09, CHR 0x0A, CHR 0x0B, CHR 0x0C, CHR 0x0D, CHR 0x20])"

definition digit_value :: "char \<Rightarrow> nat option" where
  "digit_value c =
     (let n = (of_char c :: nat) in
      if 48 \<le> n \<and> n \<le> 57 then Some (n - 48)
      else if 97 \<le> n \<and> n \<le> 122 then Some (n - 87)
      else if 65 \<le> n \<and> n \<le> 90 then Some (n - 55)
      else None)"

definition is_radix_digit :: "nat \<Rightarrow> char \<Rightarrow> bool" where
  "is_radix_digit R c = (case digit_value c of None \<Rightarrow> False | Some d \<Rightarrow> d < R)"

fun digits_to_nat :: "nat \<Rightarrow> nat \<Rightarrow> string \<Rightarrow> nat" where
  "digits_to_nat R acc [] = acc"
| "digits_to_nat R acc (c # cs) =
     (case digit_value c of
        None \<Rightarrow> acc
      | Some d \<Rightarrow> digits_to_nat R (acc * R + d) cs)"

definition parseInt :: "string \<Rightarrow> jsnum" where
  "parseInt inputString =
     (let S = dropWhile is_white_space inputString;
          negative = (take 1 S = ''-'');
          S1 = (if take 1 S = ''+'' \<or> take 1 S = ''-'' then drop 1 S else S);
          hex = (take 2 S1 = ''0x'' \<or> take 2 S1 = ''0X'');
          R = (if hex then 16 else 10);
          S2 = (if hex then drop 2 S1 else S1);
          Z = takeWhile (is_radix_digit R) S2
      in if Z = [] then NaN
         else if negative then Num (- int (digits_to_nat R 0 Z))
         else Num (int (digits_to_nat R 0 Z)))"

text \<open>
  The \<open>onChange\<close> handler of the input:
  \<open>updateField('years_experience', parseInt(e.target.value) || 0)\<close>, as a function of
  \<open>e.target.value\<close> and the previous state.
\<close>

definition years_experience_onChange :: "string \<Rightarrow> formData \<Rightarrow> formData" where
  "years_experience_onChange target_value prev =
     prev\<lparr>years_experience := or_num (parseInt target_value) (Num 0)\<rparr>"

text \<open>The data model's "non-negative integer".\<close>

fun non_negative_integer :: "jsnum \<Rightarrow> bool" where
  "non_negative_integer NaN = False"
| "non_negative_integer (Num n) = (0 \<le> n)"

section \<open>The application state and the shared API client (api.js)\<close>

record identity =
  user_id :: string
  display_name :: string
  email :: string
  picture :: "string option"

text \<open>
  A rejected request: \<open>error.response?.status\<close> and
  \<open>error.response?.data?.detail\<close>, each absent when the error carries none.
\<close>

record api_error =
  status :: "nat option"
  detail :: "string option"

datatype 'a outcome = Resolved 'a | Rejected api_error

text \<open>Response bodies, with the fields the client reads.\<close>

record profile_data =
  profile_id :: string

record analysis_data =
  report_id :: string

text \<open>
  Request bodies: none, \<open>{ session_id }\<close>, the draft profile, \<open>{ profile_id }\<close> and
  \<open>{ milestones_completed }\<close>.
\<close>

datatype payload =
    NoBody
  | SessionBody string
  | ProfileBody formData
  | AnalyzeBody string
  | MilestonesBody "string list"

datatype http_method = GET | POST | PATCH | DELETE

text \<open>
  What an operation does to the outside, in the order it does it: requests issued through
  the client, assignments to \<open>window.location.href\<close>, \<open>history.replaceState\<close>, router
  navigation, notices and console output. \<open>SetCompletedMilestones\<close> records the call of
  that state setter of the report view, so that its place relative to the request shows.
\<close>

datatype event =
    Request http_method string payload
  | LocationAssign string
  | ReplaceState string
  | Navigate string
  | ToastSuccess string
  | ToastError string
  | ConsoleError string
  | SetCompletedMilestones "string list"

text \<open>
  The state shared by the whole application: the session controller's \<open>user\<close> and
  \<open>loading\<close>, the window's location, and the trace of effects so far.
\<close>

record app_state =
  user :: "identity option"
  loading :: bool
  pathname :: string
  hash :: string
  trace :: "event list"

text \<open>The state of a freshly loaded page at a given URL.\<close>

definition initial_app :: "string \<Rightarrow> string \<Rightarrow> app_state" where
  "initial_app p h = \<lparr> user = None, loading = True, pathname = p, hash = h, trace = [] \<rparr>"

datatype session_phase = Bootstrapping | Authenticated | Anonymous

definition phase :: "app_state \<Rightarrow> session_phase" where
  "phase st = (if loading st then Bootstrapping
               else if user st = None then Anonymous else Authenticated)"

definition emit :: "event \<Rightarrow> app_state \<Rightarrow> app_state" where
  "emit e st = st\<lparr>trace := trace st @ [e]\<rparr>"

text \<open>The events an operation added to the trace.\<close>

definition events_since :: "app_state \<Rightarrow> app_state \<Rightarrow> event list" where
  "events_since st st' = drop (length (trace st)) (trace st')"

text \<open>
  The backend, as the answers it gives: one per operation the modelled code calls. An
  awaited call is modelled by its answer: the operation resumes with it, and no other
  handler runs in between.
\<close>

record backend =
  get_auth_me :: "identity outcome"
  post_auth_session :: "string \<Rightarrow> identity outcome"
  post_profile :: "formData \<Rightarrow> profile_data outcome"
  post_analyze :: "string \<Rightarrow> analysis_data outcome"
  patch_milestones :: "string \<Rightarrow> string list \<Rightarrow> unit outcome"

text \<open>
  The response interceptor's error handler. The assignment to \<open>window.location.href\<close>
  starts a page load; the running handler continues, and \<open>window.location.pathname\<close>
  stays what it was until the load commits. The error is rejected again unchanged.
\<close>

definition response_error :: "api_error \<Rightarrow> app_state \<Rightarrow> app_state" where
  "response_error error st =
     (if status error = Some 401
      then (if pathname st \<noteq> ''/'' then emit (LocationAssign ''/'') st else st)
      else st)"

text \<open>
  A call through the client: the request goes out, the backend answers with
  \<open>answer\<close>, the response interceptor runs, and the caller's promise settles with the
  same answer.
\<close>

definition api_request ::
  "http_method \<Rightarrow> string \<Rightarrow> payload \<Rightarrow> 'a outcome \<Rightarrow> app_state \<Rightarrow> 'a outcome \<times> app_state" where
  "api_request m url body answer st =
     (let st1 = emit (Request m url body) st in
      case answer of
        Resolved response \<Rightarrow> (Resolved response, st1)
      | Rejected error \<Rightarrow> (Rejected error, response_error error st1))"

definition saveProfile :: "backend \<Rightarrow> formData \<Rightarrow> app_state \<Rightarrow> profile_data outcome \<times> app_state" where
  "saveProfile b data st = api_request POST ''/profile'' (ProfileBody data) (post_profile b data) st"

definition runAnalysis :: "backend \<Rightarrow> string \<Rightarrow> app_state \<Rightarrow> analysis_data outcome \<times> app_state" where
  "runAnalysis b profileId st =
     api_request POST ''/analyze'' (AnalyzeBody profileId) (post_analyze b profileId) st"

definition updateMilestones ::
  "backend \<Rightarrow> string \<Rightarrow> string list \<Rightarrow> app_state \<Rightarrow> unit outcome \<times> app_state" where
  "updateMilestones b ident milestones st =
     api_request PATCH (''/reports/'' @ ident @ ''/milestones'') (MilestonesBody milestones)
       (patch_milestones b ident milestones) st"

text \<open>
  Router navigation and \<open>history.replaceState\<close> change the location at once: the path
  up to the first \<open>?\<close> or \<open>#\<close>, and the fragment from the first \<open>#\<close> (a bare
  \<open>#\<close> reads as the empty fragment).
\<close>

definition set_location :: "string \<Rightarrow> app_state \<Rightarrow> app_state" where
  "set_location url st =
     (let fragment = dropWhile (\<lambda>c. c \<noteq> CHR ''#'') url in
      st\<lparr>pathname := takeWhile (\<lambda>c. c \<noteq> CHR ''?'' \<and> c \<noteq> CHR ''#'') url,
         hash := (if fragment = ''#'' then '''' else fragment)\<rparr>)"

definition navigate :: "string \<Rightarrow> app_state \<Rightarrow> app_state" where
  "navigate to st = set_location to (emit (Navigate to) st)"

definition replaceState :: "string \<Rightarrow> app_state \<Rightarrow> app_state" where
  "replaceState url st = set_location url (emit (ReplaceState url) st)"

section \<open>The session controller (AuthContext.jsx)\<close>

subsection \<open>Reading the URL fragment\<close>

text \<open>\<open>String.prototype.includes\<close>: the search string occurs somewhere.\<close>

definition starts_with :: "string \<Rightarrow> string \<Rightarrow> bool" where
  "starts_with s search = (take (length search) s = search)"

fun string_includes :: "string \<Rightarrow> string \<Rightarrow> bool" where
  "string_includes [] search = (search = [])"
| "string_includes (c # cs) search = (starts_with (c # cs) search \<or> string_includes cs search)"

text \<open>
  \<open>new URLSearchParams(init)\<close> for a string, after the URL Standard's
  \<open>application/x-www-form-urlencoded\<close> parser: a leading \<open>?\<close> is dropped, the input
  is split at every \<open>&\<close>, empty pieces are skipped, each piece is split at its first
  \<open>=\<close> into name and value (no \<open>=\<close>: the value is empty), every \<open>+\<close> becomes a
  space, and name and value are percent-decoded and then decoded as UTF-8.
\<close>

fun split_on :: "char \<Rightarrow> string \<Rightarrow> string list" where
  "split_on d [] = [[]]"
| "split_on d (c # cs) =
     (if c = d then [] # split_on d cs
      else (case split_on d cs of
              [] \<Rightarrow> [[c]]
            | piece # pieces \<Rightarrow> (c # piece) # pieces))"

definition is_hex_digit :: "char \<Rightarrow> bool" where
  "is_hex_digit c = is_radix_digit 16 c"

fun percent_decode :: "string \<Rightarrow> string" where
  "percent_decode (c # h1 # h2 # rest) =
     (if c = CHR ''%'' \<and> is_hex_digit h1 \<and> is_hex_digit h2
      then char_of (digits_to_nat 16 0 [h1, h2]) # percent_decode rest
      else c # percent_decode (h1 # h2 # rest))"
| "percent_decode cs = cs"

text \<open>
  The platform's UTF-8 decoder (Encoding Standard, without byte order mark handling), on
  the model's strings: a well-formed sequence decodes to a character whose UTF-8 bytes
  are the sequence itself, and each ill-formed part decodes to U+FFFD, whose bytes are
  \<open>EF BF BD\<close>. The state is the number of bytes still needed, the bytes of the
  sequence read so far, and the bounds on the next byte. A byte outside the bounds ends
  the sequence with U+FFFD and is read again as the start of a new one; so is the end of
  the input inside a sequence.
\<close>

definition replacement_character :: string where
  "replacement_character = [CHR 0xEF, CHR 0xBF, CHR 0xBD]"

function utf8_decode_from :: "nat \<Rightarrow> string \<Rightarrow> nat \<Rightarrow> nat \<Rightarrow> string \<Rightarrow> string" where
  "utf8_decode_from needed seen lower upper [] =
     (if needed = 0 then [] else replacement_character)"
| "utf8_decode_from needed seen lower upper (c # cs) =
     (if needed = 0 then
        (if (of_char c :: nat) \<le> 0x7F then c # utf8_decode_from 0 [] 0x80 0xBF cs
         else if 0xC2 \<le> (of_char c :: nat) \<and> (of_char c :: nat) \<le> 0xDF
           then utf8_decode_from 1 [c] 0x80 0xBF cs
         else if 0xE0 \<le> (of_char c :: nat) \<and> (of_char c :: nat) \<le> 0xEF
           then utf8_decode_from 2 [c]
                  (if (of_char c :: nat) = 0xE0 then 0xA0 else 0x80)
                  (if (of_char c :: nat) = 0xED then 0x9F else 0xBF) cs
         else if 0xF0 \<le> (of_char c :: nat) \<and> (of_char c :: nat) \<le> 0xF4
           then utf8_decode_from 3 [c]
                  (if (of_char c :: nat) = 0xF0 then 0x90 else 0x80)
                  (if (of_char c :: nat) = 0xF4 then 0x8F else 0xBF) cs
         else replacement_character @ utf8_decode_from 0 [] 0x80 0xBF cs)
      else if (of_char c :: nat) < lower \<or> upper < (of_char c :: nat)
        then replacement_character @ utf8_decode_from 0 [] 0x80 0xBF (c # cs)
      else if needed = 1 then seen @ [c] @ utf8_decode_from 0 [] 0x80 0xBF cs
      else utf8_decode_from (needed - 1) (seen @ [c]) 0x80 0xBF cs)"
  by pat_completeness auto
termination
  by (relation "measures [\<lambda>(needed, seen, lower, upper, input). length input,
                          \<lambda>(needed, seen, lower, upper, input). needed]") auto

definition utf8_decode :: "string \<Rightarrow> string" where
  "utf8_decode bytes = utf8_decode_from 0 [] 0x80 0xBF bytes"

definition plus_to_space :: "string \<Rightarrow> string" where
  "plus_to_space s = map (\<lambda>c. if c = CHR ''+'' then CHR '' '' else c) s"

definition parse_pair :: "string \<Rightarrow> string \<times> string" where
  "parse_pair bytes =
     (let name = takeWhile (\<lambda>c. c \<noteq> CHR ''='') bytes;
          val = drop 1 (dropWhile (\<lambda>c. c \<noteq> CHR ''='') bytes)
      in (utf8_decode (percent_decode (plus_to_space name)),
          utf8_decode (percent_decode (plus_to_space val))))"

definition URLSearchParams :: "string \<Rightarrow> (string \<times> string) list" where
  "URLSearchParams init =
     (let input = (if take 1 init = ''?'' then drop 1 init else init) in
      map parse_pair (filter (\<lambda>bytes. bytes \<noteq> []) (split_on CHR ''&'' input)))"

text \<open>\<open>params.get(name)\<close>: the value of the first pair with that name, or null.\<close>

fun URLSearchParams_get :: "(string \<times> string) list \<Rightarrow> string \<Rightarrow> string option" where
  "URLSearchParams_get [] name = None"
| "URLSearchParams_get ((n, v) # pairs) name =
     (if n = name then Some v else URLSearchParams_get pairs name)"

subsection \<open>Bootstrap\<close>

text \<open>
  \<open>checkSession\<close>: \<open>try { setUser(data) } catch { setUser(null) } finally
  { setLoading(false) }\<close> around \<open>api.get('/auth/me')\<close>.
\<close>

definition checkSession :: "backend \<Rightarrow> app_state \<Rightarrow> app_state" where
  "checkSession b st =
     (case api_request GET ''/auth/me'' NoBody (get_auth_me b) st of
        (Resolved data, st1) \<Rightarrow> st1\<lparr>user := Some data, loading := False\<rparr>
      | (Rejected error, st1) \<Rightarrow> st1\<lparr>user := None, loading := False\<rparr>)"

definition processSessionId :: "backend \<Rightarrow> string \<Rightarrow> app_state \<Rightarrow> app_state" where
  "processSessionId b sessionId st =
     (case api_request POST ''/auth/session'' (SessionBody sessionId)
             (post_auth_session b sessionId) (st\<lparr>loading := True\<rparr>) of
        (Resolved data, st1) \<Rightarrow>
          (navigate ''/dashboard'' (replaceState (pathname st1) (st1\<lparr>user := Some data\<rparr>)))
            \<lparr>loading := False\<rparr>
      | (Rejected error, st1) \<Rightarrow>
          (navigate ''/'' ((emit (ConsoleError ''Session processing failed:'') st1)
              \<lparr>user := None\<rparr>))
            \<lparr>loading := False\<rparr>)"

text \<open>
  \<open>handleAuth\<close>, the mount effect. A string is truthy when it is not empty; \<open>get\<close>
  returning null falls through to \<open>checkSession\<close> like an empty token does.
\<close>

definition handleAuth :: "backend \<Rightarrow> app_state \<Rightarrow> app_state" where
  "handleAuth b st =
     (if hash st \<noteq> [] \<and> string_includes (hash st) ''session_id=''
      then (case URLSearchParams_get (URLSearchParams (drop 1 (hash st))) ''session_id'' of
              None \<Rightarrow> checkSession b st
            | Some sessionId \<Rightarrow>
                if sessionId \<noteq> [] then processSessionId b sessionId st
                else checkSession b st)
      else checkSession b st)"

text \<open>
  The mount effect: \<open>useEffect(() => { handleAuth() }, [checkSession,
  processSessionId])\<close>. \<open>checkSession\<close> never changes; \<open>processSessionId\<close> is a
  callback over \<open>[navigate]\<close>, and under \<open>BrowserRouter\<close> the function that
  \<open>useNavigate\<close> returns is a new one whenever the path has changed. So the effect
  runs on mount, and again after a run that left the path changed. This definition
  follows the session controller's own navigation; navigation by the routes and the pages
  re-runs the effect in the same way and is not part of it.
\<close>

function handleAuth_effect :: "backend \<Rightarrow> app_state \<Rightarrow> app_state" where
  "handleAuth_effect b st =
     (if pathname (handleAuth b st) = pathname st then handleAuth b st
      else handleAuth_effect b (handleAuth b st))"
  by pat_completeness auto

section \<open>Routes (App)\<close>

datatype page = Landing | Onboarding | Results string | Dashboard

datatype element = LoadingIndicator | NavigateTo string | Page page

text \<open>The wrapper: \<open>!user\<close> holds when \<open>user\<close> is null.\<close>

definition ProtectedRoute :: "app_state \<Rightarrow> element \<Rightarrow> element" where
  "ProtectedRoute st children =
     (if loading st then LoadingIndicator
      else if user st = None then NavigateTo ''/''
      else children)"

text \<open>
  The four route patterns, already matched: \<open>/\<close>, \<open>/onboarding\<close>,
  \<open>/results/:reportId\<close> and \<open>/dashboard\<close>.
\<close>

datatype route = RootRoute | OnboardingRoute | ResultsRoute string | DashboardRoute

fun AppRoutes :: "app_state \<Rightarrow> route \<Rightarrow> element" where
  "AppRoutes st RootRoute = Page Landing"
| "AppRoutes st OnboardingRoute = ProtectedRoute st (Page Onboarding)"
| "AppRoutes st (ResultsRoute reportId) = ProtectedRoute st (Page (Results reportId))"
| "AppRoutes st DashboardRoute = ProtectedRoute st (Page Dashboard)"

fun protected_page :: "route \<Rightarrow> page option" where
  "protected_page RootRoute = None"
| "protected_page OnboardingRoute = Some Onboarding"
| "protected_page (ResultsRoute reportId) = Some (Results reportId)"
| "protected_page DashboardRoute = Some Dashboard"

section \<open>Final submission (Onboarding.jsx)\<close>

text \<open>\<open>error.response?.data?.detail || 'Something went wrong'\<close>.\<close>

definition error_notice :: "api_error \<Rightarrow> string" where
  "error_notice error =
     (case detail error of
        None \<Rightarrow> ''Something went wrong''
      | Some d \<Rightarrow> if d \<noteq> [] then d else ''Something went wrong'')"

text \<open>The \<open>catch\<close> block and the \<open>finally\<close> block of \<open>handleSubmit\<close>.\<close>

definition submit_catch :: "api_error \<Rightarrow> app_state \<Rightarrow> app_state" where
  "submit_catch error st = emit (ToastError (error_notice error)) (emit (ConsoleError ''Error:'') st)"

definition submit_finally :: "onboarding \<Rightarrow> onboarding" where
  "submit_finally s = s\<lparr>isSubmitting := False, isAnalyzing := False\<rparr>"

definition handleSubmit :: "backend \<Rightarrow> onboarding \<times> app_state \<Rightarrow> onboarding \<times> app_state" where
  "handleSubmit b = (\<lambda>(s, st).
     (let s1 = s\<lparr>isSubmitting := True\<rparr> in
      case saveProfile b (form s) st of
        (Rejected error, st1) \<Rightarrow> (submit_finally s1, submit_catch error st1)
      | (Resolved profileResponse, st1) \<Rightarrow>
          (let st2 = emit (ToastSuccess ''Profile saved!'') st1;
               s2 = s1\<lparr>isAnalyzing := True\<rparr>
           in case runAnalysis b (profile_id profileResponse) st2 of
                (Rejected error, st3) \<Rightarrow> (submit_finally s2, submit_catch error st3)
              | (Resolved analysisResponse, st3) \<Rightarrow>
                  (submit_finally s2,
                   navigate (''/results/'' @ report_id analysisResponse)
                     (emit (ToastSuccess ''Analysis complete!'') st3)))))"

section \<open>Milestones on the report view (Results.jsx)\<close>

record results =
  reportId :: string
  completedMilestones :: "string list"

text \<open>The local constant \<open>newMilestones\<close> of \<open>toggleMilestone\<close>.\<close>

definition newMilestones :: "string list \<Rightarrow> string \<Rightarrow> string list" where
  "newMilestones completed milestone =
     (if array_includes completed milestone
      then filter (\<lambda>m. m \<noteq> milestone) completed
      else completed @ [milestone])"

definition toggleMilestone ::
  "backend \<Rightarrow> string \<Rightarrow> results \<times> app_state \<Rightarrow> results \<times> app_state" where
  "toggleMilestone b milestone = (\<lambda>(rs, st).
     (let new = newMilestones (completedMilestones rs) milestone;
          rs1 = rs\<lparr>completedMilestones := new\<rparr>;
          st1 = emit (SetCompletedMilestones new) st
      in case updateMilestones b (reportId rs) new st1 of
           (Resolved ack, st2) \<Rightarrow> (rs1, st2)
         | (Rejected error, st2) \<Rightarrow> (rs1, emit (ToastError ''Failed to update milestone'') st2)))"

section \<open>Vocabulary for the statements\<close>

text \<open>
  The events the response interceptor adds for a rejected call issued while the window
  is at path \<open>p\<close>.
\<close>

definition unauthorized_redirect :: "api_error \<Rightarrow> string \<Rightarrow> event list" where
  "unauthorized_redirect error p =
     (if status error = Some 401 \<and> p \<noteq> ''/'' then [LocationAssign ''/''] else [])"

text \<open>Requests by operation.\<close>

fun is_request :: "event \<Rightarrow> bool" where
  "is_request (Request m url body) = True"
| "is_request e = False"

fun is_run_analysis :: "event \<Rightarrow> bool" where
  "is_run_analysis (Request m url body) = (m = POST \<and> url = ''/analyze'')"
| "is_run_analysis e = False"

text \<open>Sample values for the concrete instances below.\<close>

definition unauthorized :: api_error where
  "unauthorized = \<lparr> status = Some 401, detail = None \<rparr>"

definition sample_user :: identity where
  "sample_user = \<lparr> user_id = ''u1'', display_name = ''Ada'', email = ''ada@example.org'',
                    picture = None \<rparr>"

text \<open>A backend that knows the session but rejects every other call as unauthorized.\<close>

definition sample_backend :: backend where
  "sample_backend =
     \<lparr> get_auth_me = Resolved sample_user,
       post_auth_session = (\<lambda>sessionId. Rejected unauthorized),
       post_profile = (\<lambda>data. Rejected unauthorized),
       post_analyze = (\<lambda>profileId. Rejected unauthorized),
       patch_milestones = (\<lambda>ident milestones. Rejected unauthorized) \<rparr>"

text \<open>A backend that accepts every call.\<close>

definition accepting_backend :: backend where
  "accepting_backend =
     \<lparr> get_auth_me = Resolved sample_user,
       post_auth_session = (\<lambda>sessionId. Resolved sample_user),
       post_profile = (\<lambda>data. Resolved \<lparr> profile_id = ''p1'' \<rparr>),
       post_analyze = (\<lambda>profileId. Resolved \<lparr> report_id = ''r1'' \<rparr>),
       patch_milestones = (\<lambda>ident milestones. Resolved ()) \<rparr>"

text \<open>An authenticated session on a given path.\<close>

definition signed_in :: "string \<Rightarrow> app_state" where
  "signed_in p = \<lparr> user = Some sample_user, loading = False, pathname = p, hash = '''',
                   trace = [] \<rparr>"

section \<open>Selection toggles\<close>

lemma includes_set: "array_includes xs x = (x \<in> set xs)"
  by (induction xs) auto

lemma get_set_field: "get_field f (set_field f v fd) = v"
  by (cases f) simp_all

lemma get_set_field_other: "f \<noteq> g \<Longrightarrow> get_field f (set_field g v fd) = get_field f fd"
  by (cases f; cases g) simp_all

lemma set_set_field: "set_field f v (set_field f w fd) = set_field f v fd"
  by (cases f) simp_all

lemma set_get_field: "set_field f (get_field f fd) fd = fd"
  by (cases f) simp_all

lemma get_field_toggle:
  "get_field f (toggleArrayItem f item fd) =
     (if item \<in> set (get_field f fd) then filter (\<lambda>i. i \<noteq> item) (get_field f fd)
      else get_field f fd @ [item])"
  by (simp add: toggleArrayItem_def Let_def includes_set get_set_field)

lemma get_field_toggle_other:
  "f \<noteq> g \<Longrightarrow> get_field f (toggleArrayItem g item fd) = get_field f fd"
  by (simp add: toggleArrayItem_def Let_def get_set_field_other)

lemma filter_absent: "item \<notin> set xs \<Longrightarrow> filter (\<lambda>i. i \<noteq> item) xs = xs"
  by (induction xs) auto

lemma distinct_toggle:
  "distinct (get_field f fd) \<Longrightarrow> distinct (get_field f (toggleArrayItem g item fd))"
proof (cases "f = g")
  case True
  assume "distinct (get_field f fd)"
  with True show ?thesis by (simp add: get_field_toggle)
next
  case False
  assume "distinct (get_field f fd)"
  with False show ?thesis by (simp add: get_field_toggle_other)
qed

lemma distinct_toggle_all:
  "distinct (get_field f fd) \<Longrightarrow> distinct (get_field f (toggle_all ops fd))"
proof (induction ops arbitrary: fd)
  case Nil
  then show ?case by simp
next
  case (Cons op ops)
  obtain g item where op: "op = (g, item)" by (cases op)
  from Cons.prems have "distinct (get_field f (toggleArrayItem g item fd))"
    by (rule distinct_toggle)
  then have "distinct (get_field f (toggle_all ops (toggleArrayItem g item fd)))"
    by (rule Cons.IH)
  with op show ?case by simp
qed

lemma get_field_initial: "get_field f initialFormData = []"
  by (cases f) (simp_all add: initialFormData_def)

lemma count_list_toggle:
  "count_list (get_field f (toggleArrayItem f item fd)) item =
     (if array_includes (get_field f fd) item then 0 else 1)"
proof (cases "item \<in> set (get_field f fd)")
  case True
  then have "item \<notin> set (get_field f (toggleArrayItem f item fd))"
    by (simp add: get_field_toggle)
  then have "count_list (get_field f (toggleArrayItem f item fd)) item = 0"
    by (simp add: count_list_0_iff)
  with True show ?thesis by (simp add: includes_set)
next
  case False
  then have "count_list (get_field f fd) item = 0"
    by (simp add: count_list_0_iff)
  with False show ?thesis by (simp add: get_field_toggle includes_set)
qed

text \<open>
  C9. Starting from the initial draft profile, whose selectable fields are all empty,
  every sequence of toggles (on any fields, with any labels) leaves every selectable
  field free of duplicates. A toggle of an item leaves no occurrence of it in the field
  when it was there, and exactly one when it was not.
\<close>

theorem toggle_sequence_distinct:
  "distinct (get_field f (toggle_all ops initialFormData))
   \<and> count_list (get_field f (toggleArrayItem f item fd)) item =
       (if array_includes (get_field f fd) item then 0 else 1)"
proof
  have "distinct (get_field f initialFormData)"
    by (simp add: get_field_initial)
  then show "distinct (get_field f (toggle_all ops initialFormData))"
    by (rule distinct_toggle_all)
next
  show "count_list (get_field f (toggleArrayItem f item fd)) item =
       (if array_includes (get_field f fd) item then 0 else 1)"
    by (rule count_list_toggle)
qed

lemma canProceed_cong:
  "currentStep s' = currentStep s \<Longrightarrow>
   education (form s') = education (form s) \<Longrightarrow>
   current_role (form s') = current_role (form s) \<Longrightarrow>
   hours_per_week (form s') = hours_per_week (form s) \<Longrightarrow>
   (\<And>f. set (get_field f (form s')) = set (get_field f (form s))) \<Longrightarrow>
   canProceed s' = canProceed s"
proof -
  assume step: "currentStep s' = currentStep s"
    and ed: "education (form s') = education (form s)"
    and ro: "current_role (form s') = current_role (form s)"
    and ho: "hours_per_week (form s') = hours_per_week (form s)"
    and sets: "\<And>f. set (get_field f (form s')) = set (get_field f (form s))"
  have empty: "(get_field f (form s') = []) = (get_field f (form s) = [])" for f
    using sets [of f] by (metis set_empty)
  from empty [of Tech_skills] empty [of Domain_skills] empty [of Excited_domains]
    empty [of Target_roles] step ed ro ho
  show ?thesis by (simp add: canProceed_def)
qed

lemma toggle_scalar:
  "education (toggleArrayItem f item fd) = education fd"
  "current_role (toggleArrayItem f item fd) = current_role fd"
  "hours_per_week (toggleArrayItem f item fd) = hours_per_week fd"
  by (cases f; simp add: toggleArrayItem_def Let_def)+

lemma set_toggle_twice:
  "set (get_field g (toggleArrayItem f item (toggleArrayItem f item fd))) = set (get_field g fd)"
proof (cases "g = f")
  case True
  then show ?thesis by (auto simp: get_field_toggle)
next
  case False
  then show ?thesis by (simp add: get_field_toggle_other)
qed

text \<open>
  C6. Toggling an item twice on a selectable field restores the field: its set of labels
  is the one before, and so is the membership of every label. A single toggle flips the
  membership of the item and of nothing else. When the item was not selected, the first
  toggle appends it and the second restores the whole draft profile exactly; when it was
  selected, the first toggle removes it and the second appends it, so only the position
  of the item in the list changes. What the wizard renders does not depend on that
  position: it is the same after the two toggles.
\<close>

theorem toggle_twice_restores:
  "set (get_field f (toggleArrayItem f item (toggleArrayItem f item fd))) = set (get_field f fd)
   \<and> (\<forall>label. array_includes (get_field f (toggleArrayItem f item fd)) label =
         (if label = item then \<not> array_includes (get_field f fd) item
          else array_includes (get_field f fd) label))
   \<and> (item \<notin> set (get_field f fd) \<longrightarrow>
         get_field f (toggleArrayItem f item fd) = get_field f fd @ [item]
         \<and> toggleArrayItem f item (toggleArrayItem f item fd) = fd)
   \<and> (item \<in> set (get_field f fd) \<longrightarrow>
         item \<notin> set (get_field f (toggleArrayItem f item fd))
         \<and> toggleArrayItem f item (toggleArrayItem f item fd) =
             set_field f (filter (\<lambda>i. i \<noteq> item) (get_field f fd) @ [item]) fd)
   \<and> render (s\<lparr>form := toggleArrayItem f item (toggleArrayItem f item (form s))\<rparr>) = render s"
proof (intro conjI allI impI)
  show "set (get_field f (toggleArrayItem f item (toggleArrayItem f item fd))) = set (get_field f fd)"
    by (rule set_toggle_twice)
next
  fix label
  show "array_includes (get_field f (toggleArrayItem f item fd)) label =
         (if label = item then \<not> array_includes (get_field f fd) item
          else array_includes (get_field f fd) label)"
    by (auto simp: get_field_toggle includes_set)
next
  assume "item \<notin> set (get_field f fd)"
  then show "get_field f (toggleArrayItem f item fd) = get_field f fd @ [item]"
    by (simp add: get_field_toggle)
next
  assume absent: "item \<notin> set (get_field f fd)"
  then have "toggleArrayItem f item (toggleArrayItem f item fd) = set_field f (get_field f fd) fd"
    by (simp add: toggleArrayItem_def Let_def includes_set get_set_field set_set_field filter_absent)
  then show "toggleArrayItem f item (toggleArrayItem f item fd) = fd"
    by (simp add: set_get_field)
next
  assume "item \<in> set (get_field f fd)"
  then show "item \<notin> set (get_field f (toggleArrayItem f item fd))"
    by (simp add: get_field_toggle)
next
  assume "item \<in> set (get_field f fd)"
  then show "toggleArrayItem f item (toggleArrayItem f item fd) =
             set_field f (filter (\<lambda>i. i \<noteq> item) (get_field f fd) @ [item]) fd"
    by (simp add: toggleArrayItem_def Let_def includes_set get_set_field set_set_field)
next
  let ?s' = "s\<lparr>form := toggleArrayItem f item (toggleArrayItem f item (form s))\<rparr>"
  have "canProceed ?s' = canProceed s"
    by (rule canProceed_cong) (simp_all add: toggle_scalar set_toggle_twice)
  then show "render ?s' = render s"
    by (simp add: render_def)
qed

theorem toggle_twice_restores_witness:
  "toggleArrayItem Tech_skills ''Python'' (toggleArrayItem Tech_skills ''Python'' initialFormData)
     = initialFormData
   \<and> tech_skills (toggleArrayItem Tech_skills ''Python''
        (toggleArrayItem Tech_skills ''Python''
          (initialFormData\<lparr>tech_skills := [''Python'', ''SQL'']\<rparr>))) = [''SQL'', ''Python'']"
proof -
  have absent: "''Python'' \<notin> set (get_field Tech_skills initialFormData)"
    by (simp add: initialFormData_def)
  have present: "''Python'' \<in> set (get_field Tech_skills (initialFormData\<lparr>tech_skills := [''Python'', ''SQL'']\<rparr>))"
    by simp
  from absent toggle_twice_restores [of Tech_skills "''Python''" initialFormData]
  have a: "toggleArrayItem Tech_skills ''Python'' (toggleArrayItem Tech_skills ''Python'' initialFormData)
     = initialFormData" by blast
  from present toggle_twice_restores [of Tech_skills "''Python''" "initialFormData\<lparr>tech_skills := [''Python'', ''SQL'']\<rparr>"]
  have "toggleArrayItem Tech_skills ''Python'' (toggleArrayItem Tech_skills ''Python''
          (initialFormData\<lparr>tech_skills := [''Python'', ''SQL'']\<rparr>)) =
        set_field Tech_skills (filter (\<lambda>i. i \<noteq> ''Python'')
          (get_field Tech_skills (initialFormData\<lparr>tech_skills := [''Python'', ''SQL'']\<rparr>)) @ [''Python''])
          (initialFormData\<lparr>tech_skills := [''Python'', ''SQL'']\<rparr>)"
    by blast
  then have b: "tech_skills (toggleArrayItem Tech_skills ''Python''
        (toggleArrayItem Tech_skills ''Python''
          (initialFormData\<lparr>tech_skills := [''Python'', ''SQL'']\<rparr>))) = [''SQL'', ''Python'']"
    by simp
  from a b show ?thesis by simp
qed

section \<open>Step gates\<close>

lemma canProceed_gate:
  assumes "0 \<le> currentStep s" and "currentStep s \<le> 5"
  shows "canProceed s = gate (STEPS ! nat (currentStep s)) (form s)"
proof -
  from assms have "currentStep s = 0 \<or> currentStep s = 1 \<or> currentStep s = 2
      \<or> currentStep s = 3 \<or> currentStep s = 4 \<or> currentStep s = 5"
    by arith
  then show ?thesis
    by (elim disjE) (auto simp: canProceed_def STEPS_def)
qed

text \<open>
  C1, as stated, fails on the last step while a submission is in progress: the gate of
  Preferences holds, and the submit control is shown disabled.
\<close>

theorem submit_disabled_while_submitting_counterexample:
  "gate (STEPS ! nat (currentStep (initialOnboarding\<lparr>currentStep := 5, isSubmitting := True\<rparr>)))
        (form (initialOnboarding\<lparr>currentStep := 5, isSubmitting := True\<rparr>))
   \<and> render (initialOnboarding\<lparr>currentStep := 5, isSubmitting := True\<rparr>)
        = WizardView False (SubmitButton True)
   \<and> \<not> advance_enabled (render (initialOnboarding\<lparr>currentStep := 5, isSubmitting := True\<rparr>))"
  by (simp add: initialOnboarding_def render_def canProceed_def STEPS_def)

text \<open>
  C1, amended. On each of the six steps the "Next" control (the submit control on the
  last step) is shown enabled if and only if the step's gate holds on the draft profile,
  the wizard is not showing the analysing screen, and, on the last step, no submission is
  in progress.
\<close>

theorem advance_enabled_iff_gate:
  assumes "0 \<le> currentStep s" and "currentStep s \<le> 5"
  shows "advance_enabled (render s) =
           (gate (STEPS ! nat (currentStep s)) (form s)
            \<and> \<not> isAnalyzing s
            \<and> \<not> (currentStep s = 5 \<and> isSubmitting s))"
proof -
  have len: "int (length STEPS) - 1 = 5" by (simp add: STEPS_def)
  from assms have g: "canProceed s = gate (STEPS ! nat (currentStep s)) (form s)"
    by (rule canProceed_gate)
  show ?thesis
  proof (cases "currentStep s < 5")
    case True
    with g len show ?thesis by (simp add: render_def)
  next
    case False
    with assms have "currentStep s = 5" by simp
    with g len show ?thesis by (auto simp: render_def)
  qed
qed

theorem advance_enabled_iff_gate_witness:
  "advance_enabled (render initialOnboarding) = False
   \<and> advance_enabled (render (initialOnboarding\<lparr>currentStep := 3\<rparr>)) = True
   \<and> advance_enabled (render (initialOnboarding\<lparr>currentStep := 5\<rparr>)) = True"
proof -
  have a: "advance_enabled (render initialOnboarding) = False"
    using advance_enabled_iff_gate [of initialOnboarding]
    by (simp add: initialOnboarding_def initialFormData_def STEPS_def)
  have b: "advance_enabled (render (initialOnboarding\<lparr>currentStep := 3\<rparr>)) = True"
    using advance_enabled_iff_gate [of "initialOnboarding\<lparr>currentStep := 3\<rparr>"]
    by (simp add: initialOnboarding_def initialFormData_def STEPS_def)
  have c: "advance_enabled (render (initialOnboarding\<lparr>currentStep := 5\<rparr>)) = True"
    using advance_enabled_iff_gate [of "initialOnboarding\<lparr>currentStep := 5\<rparr>"]
    by (simp add: initialOnboarding_def initialFormData_def STEPS_def)
  from a b c show ?thesis by simp
qed

section \<open>Years of experience\<close>

text \<open>
  C8. The text \<open>-5\<close> in the years-of-experience input stores the negative number
  \<open>-5\<close>: \<open>parseInt\<close> reads the sign, and \<open>|| 0\<close> replaces only \<open>NaN\<close> and
  zero.
\<close>

theorem years_experience_negative:
  "years_experience (years_experience_onChange ''-5'' initialFormData) = Num (- 5)
   \<and> \<not> non_negative_integer (years_experience (years_experience_onChange ''-5'' initialFormData))"
  by (simp add: years_experience_onChange_def or_num_def parseInt_def is_white_space_def
      is_radix_digit_def digit_value_def Let_def)

section \<open>Protected routes\<close>

text \<open>
  C7. While the session controller is loading, the wrapper renders the loading indicator,
  whatever it wraps. It renders the redirect to the public entry view exactly when
  loading is over and there is no user, and the wrapped page exactly when loading is over
  and there is a user. Every protected route is this one wrapper around its page. A
  freshly loaded page is loading, and the bootstrap ends with loading over.
\<close>

theorem protected_route_gate:
  "(loading st \<longrightarrow> ProtectedRoute st children = LoadingIndicator)
   \<and> (ProtectedRoute st (Page p) = NavigateTo ''/'' \<longleftrightarrow> \<not> loading st \<and> user st = None)
   \<and> (ProtectedRoute st (Page p) = Page p \<longleftrightarrow> \<not> loading st \<and> user st \<noteq> None)
   \<and> (protected_page r = Some p \<longrightarrow> AppRoutes st r = ProtectedRoute st (Page p))
   \<and> ProtectedRoute (initial_app path fragment) children = LoadingIndicator
   \<and> \<not> loading (handleAuth b st)"
proof (intro conjI impI)
  show "\<not> loading (handleAuth b st)"
    by (simp add: handleAuth_def checkSession_def processSessionId_def api_request_def Let_def
        navigate_def set_location_def
        split: option.splits outcome.splits prod.splits)
next
  assume "protected_page r = Some p"
  then show "AppRoutes st r = ProtectedRoute st (Page p)"
    by (cases r) simp_all
qed (simp_all add: ProtectedRoute_def initial_app_def)

theorem protected_route_gate_witness:
  "ProtectedRoute (initial_app ''/dashboard'' '''') (Page Dashboard) = LoadingIndicator
   \<and> AppRoutes (signed_in ''/dashboard'') DashboardRoute = Page Dashboard
   \<and> AppRoutes ((signed_in ''/dashboard'')\<lparr>user := None\<rparr>) DashboardRoute = NavigateTo ''/''"
proof -
  have a: "ProtectedRoute (initial_app ''/dashboard'' '''') (Page Dashboard) = LoadingIndicator"
    using protected_route_gate [of "initial_app ''/dashboard'' ''''" "Page Dashboard"]
    by (simp add: initial_app_def)
  have b: "AppRoutes (signed_in ''/dashboard'') DashboardRoute = Page Dashboard"
    using protected_route_gate [of "signed_in ''/dashboard''" _ Dashboard DashboardRoute]
    by (simp add: signed_in_def)
  have c: "AppRoutes ((signed_in ''/dashboard'')\<lparr>user := None\<rparr>) DashboardRoute = NavigateTo ''/''"
    using protected_route_gate [of "(signed_in ''/dashboard'')\<lparr>user := None\<rparr>" _ Dashboard DashboardRoute]
    by (simp add: signed_in_def)
  from a b c show ?thesis by simp
qed

section \<open>Calls through the client\<close>

lemma events_since_append: "events_since st (st'\<lparr>trace := trace st @ evs\<rparr>) = evs"
  by (simp add: events_since_def)

lemma response_error_eq:
  "response_error error st = st\<lparr>trace := trace st @ unauthorized_redirect error (pathname st)\<rparr>"
  by (simp add: response_error_def unauthorized_redirect_def emit_def)

lemma api_request_Resolved:
  "api_request m url body (Resolved response) st =
     (Resolved response, st\<lparr>trace := trace st @ [Request m url body]\<rparr>)"
  by (simp add: api_request_def emit_def)

lemma api_request_Rejected:
  "api_request m url body (Rejected error) st =
     (Rejected error,
      st\<lparr>trace := trace st @ Request m url body # unauthorized_redirect error (pathname st)\<rparr>)"
  by (simp add: api_request_def response_error_eq emit_def)

text \<open>
  C4, as stated, fails: a call rejected as unauthorized does not move the session to
  Anonymous. With a signed-in user on a report page, the milestone update is rejected
  with status 401; the redirect to the public entry view is issued, and the session is
  still Authenticated when the operation ends. The page load that follows the redirect
  starts a new bootstrap, which ends Authenticated as well when the backend still
  resolves the session. On the public entry view itself the client changes nothing.
\<close>

theorem unauthorized_keeps_session_counterexample:
  "(case toggleMilestone sample_backend ''0-1''
           (\<lparr>reportId = ''r1'', completedMilestones = []\<rparr>, signed_in ''/results/r1'') of
      (rs', st') \<Rightarrow>
        phase st' = Authenticated
        \<and> LocationAssign ''/'' \<in> set (trace st'))
   \<and> phase (handleAuth sample_backend (initial_app ''/'' '''')) = Authenticated
   \<and> phase (snd (api_request GET ''/reports'' NoBody
        (Rejected unauthorized :: unit outcome) (signed_in ''/''))) = Authenticated"
  by (simp add: toggleMilestone_def updateMilestones_def api_request_def response_error_def
      emit_def newMilestones_def sample_backend_def unauthorized_def signed_in_def Let_def
      phase_def handleAuth_def checkSession_def initial_app_def)

text \<open>
  C4, amended. For every call made through the shared client whose response reports
  status 401: the client assigns the public entry view to the window's location, except
  when the window is already there, in which case it issues no redirect; it hands the
  same error on to the caller; and it leaves the session controller's state (user and
  loading) as it was.
\<close>

theorem unauthorized_response_redirects:
  assumes "status error = Some 401"
  shows "(case api_request m url body (Rejected error) st of
            (answer, st') \<Rightarrow>
              answer = Rejected error
              \<and> st' = st\<lparr>trace := trace st @ Request m url body #
                           (if pathname st = ''/'' then [] else [LocationAssign ''/''])\<rparr>
              \<and> user st' = user st \<and> loading st' = loading st \<and> phase st' = phase st)"
  using assms by (simp add: api_request_Rejected unauthorized_redirect_def phase_def)

theorem unauthorized_response_redirects_witness:
  "(case api_request PATCH ''/reports/r1/milestones'' (MilestonesBody [])
           (Rejected unauthorized :: unit outcome) (signed_in ''/results/r1'') of
      (answer, st') \<Rightarrow>
        trace st' = [Request PATCH ''/reports/r1/milestones'' (MilestonesBody []),
                     LocationAssign ''/'']
        \<and> phase st' = Authenticated)
   \<and> (case api_request GET ''/auth/me'' NoBody (Rejected unauthorized :: identity outcome) (initial_app ''/'' '''') of
      (answer, st') \<Rightarrow>
        trace st' = [Request GET ''/auth/me'' NoBody] \<and> phase st' = Bootstrapping)"
proof -
  have u: "status unauthorized = Some 401" by (simp add: unauthorized_def)
  have a: "(case api_request PATCH ''/reports/r1/milestones'' (MilestonesBody [])
           (Rejected unauthorized :: unit outcome) (signed_in ''/results/r1'') of
      (answer, st') \<Rightarrow>
        trace st' = [Request PATCH ''/reports/r1/milestones'' (MilestonesBody []),
                     LocationAssign ''/'']
        \<and> phase st' = Authenticated)"
    using unauthorized_response_redirects [OF u, where 'a = unit and m = PATCH
        and url = "''/reports/r1/milestones''" and body = "MilestonesBody []"
        and st = "signed_in ''/results/r1''"]
    by (auto simp: signed_in_def phase_def split: prod.splits)
  have b: "(case api_request GET ''/auth/me'' NoBody (Rejected unauthorized :: identity outcome) (initial_app ''/'' '''') of
      (answer, st') \<Rightarrow>
        trace st' = [Request GET ''/auth/me'' NoBody] \<and> phase st' = Bootstrapping)"
    using unauthorized_response_redirects [OF u, where 'a = identity and m = GET
        and url = "''/auth/me''" and body = NoBody and st = "initial_app ''/'' ''''"]
    by (auto simp: initial_app_def phase_def split: prod.splits)
  from a b show ?thesis by simp
qed

section \<open>Milestone toggles\<close>

lemma newMilestones_changes: "newMilestones completed milestone \<noteq> completed"
proof (cases "milestone \<in> set completed")
  case True
  then have "milestone \<notin> set (newMilestones completed milestone)"
    by (simp add: newMilestones_def includes_set)
  with True show ?thesis by metis
next
  case False
  then show ?thesis by (simp add: newMilestones_def includes_set)
qed

lemma toggleMilestone_Rejected:
  assumes "patch_milestones b (reportId rs) (newMilestones (completedMilestones rs) milestone) = Rejected error"
  shows "toggleMilestone b milestone (rs, st) =
     (rs\<lparr>completedMilestones := newMilestones (completedMilestones rs) milestone\<rparr>,
      st\<lparr>trace := trace st @
          [SetCompletedMilestones (newMilestones (completedMilestones rs) milestone),
           Request PATCH (''/reports/'' @ reportId rs @ ''/milestones'')
             (MilestonesBody (newMilestones (completedMilestones rs) milestone))]
          @ unauthorized_redirect error (pathname st)
          @ [ToastError ''Failed to update milestone'']\<rparr>)"
  using assms
  by (simp add: toggleMilestone_def updateMilestones_def api_request_Rejected emit_def Let_def)

lemma toggleMilestone_Resolved:
  assumes "patch_milestones b (reportId rs) (newMilestones (completedMilestones rs) milestone) = Resolved ack"
  shows "toggleMilestone b milestone (rs, st) =
     (rs\<lparr>completedMilestones := newMilestones (completedMilestones rs) milestone\<rparr>,
      st\<lparr>trace := trace st @
          [SetCompletedMilestones (newMilestones (completedMilestones rs) milestone),
           Request PATCH (''/reports/'' @ reportId rs @ ''/milestones'')
             (MilestonesBody (newMilestones (completedMilestones rs) milestone))]\<rparr>)"
  using assms
  by (simp add: toggleMilestone_def updateMilestones_def api_request_Resolved emit_def Let_def)

text \<open>
  C10. The milestone toggle sets the local list to the toggled value, which always
  differs from the list before, and it calls the state setter before it issues the
  "update milestones" request. When that request is rejected, the only further effects
  are the client's redirect on status 401 and the error notice: the local list keeps the
  toggled value, which the backend did not accept.
\<close>

theorem milestone_toggle_not_rolled_back:
  assumes run: "toggleMilestone b milestone (rs, st) = (rs', st')"
  shows "completedMilestones rs' = newMilestones (completedMilestones rs) milestone
     \<and> completedMilestones rs' \<noteq> completedMilestones rs
     \<and> take 2 (events_since st st') =
         [SetCompletedMilestones (newMilestones (completedMilestones rs) milestone),
          Request PATCH (''/reports/'' @ reportId rs @ ''/milestones'')
            (MilestonesBody (newMilestones (completedMilestones rs) milestone))]
     \<and> (\<forall>error. patch_milestones b (reportId rs) (newMilestones (completedMilestones rs) milestone)
            = Rejected error \<longrightarrow>
          events_since st st' =
            [SetCompletedMilestones (newMilestones (completedMilestones rs) milestone),
             Request PATCH (''/reports/'' @ reportId rs @ ''/milestones'')
               (MilestonesBody (newMilestones (completedMilestones rs) milestone))]
            @ unauthorized_redirect error (pathname st)
            @ [ToastError ''Failed to update milestone''])"
proof (cases "patch_milestones b (reportId rs) (newMilestones (completedMilestones rs) milestone)")
  case (Resolved ack)
  from toggleMilestone_Resolved [OF Resolved, of st] run Resolved show ?thesis
    by (auto simp: events_since_append newMilestones_changes)
next
  case (Rejected error)
  from toggleMilestone_Rejected [OF Rejected, of st] run Rejected show ?thesis
    by (auto simp: events_since_append newMilestones_changes)
qed

theorem milestone_toggle_not_rolled_back_witness:
  "(case toggleMilestone sample_backend ''0-1''
           (\<lparr>reportId = ''r1'', completedMilestones = [''0-0'']\<rparr>, signed_in ''/results/r1'') of
      (rs', st') \<Rightarrow>
        completedMilestones rs' = [''0-0'', ''0-1'']
        \<and> events_since (signed_in ''/results/r1'') st' =
             [SetCompletedMilestones [''0-0'', ''0-1''],
              Request PATCH ''/reports/r1/milestones'' (MilestonesBody [''0-0'', ''0-1'']),
              LocationAssign ''/'',
              ToastError ''Failed to update milestone''])"
proof -
  obtain rs' st' where run: "toggleMilestone sample_backend ''0-1''
      (\<lparr>reportId = ''r1'', completedMilestones = [''0-0'']\<rparr>, signed_in ''/results/r1'') = (rs', st')"
    by (cases "toggleMilestone sample_backend ''0-1''
      (\<lparr>reportId = ''r1'', completedMilestones = [''0-0'']\<rparr>, signed_in ''/results/r1'')")
  have rej: "patch_milestones sample_backend ''r1'' [''0-0'', ''0-1''] = Rejected unauthorized"
    by (simp add: sample_backend_def)
  from milestone_toggle_not_rolled_back [OF run] rej
  have "completedMilestones rs' = [''0-0'', ''0-1'']"
    and "events_since (signed_in ''/results/r1'') st' =
           [SetCompletedMilestones [''0-0'', ''0-1''],
            Request PATCH ''/reports/r1/milestones'' (MilestonesBody [''0-0'', ''0-1'']),
            LocationAssign ''/'',
            ToastError ''Failed to update milestone'']"
    by (simp_all add: newMilestones_def unauthorized_redirect_def unauthorized_def signed_in_def)
  with run show ?thesis by simp
qed

section \<open>Final submission\<close>

lemma handleSubmit_save_Rejected:
  assumes "post_profile b (form s) = Rejected error"
  shows "handleSubmit b (s, st) =
     (s\<lparr>isSubmitting := False, isAnalyzing := False\<rparr>,
      st\<lparr>trace := trace st @ Request POST ''/profile'' (ProfileBody (form s))
                 # unauthorized_redirect error (pathname st)
                 @ [ConsoleError ''Error:'', ToastError (error_notice error)]\<rparr>)"
  using assms
  by (simp add: handleSubmit_def saveProfile_def api_request_Rejected submit_catch_def
      submit_finally_def emit_def Let_def)

lemma handleSubmit_analysis_Rejected:
  assumes "post_profile b (form s) = Resolved profileResponse"
    and "post_analyze b (profile_id profileResponse) = Rejected error"
  shows "handleSubmit b (s, st) =
     (s\<lparr>isSubmitting := False, isAnalyzing := False\<rparr>,
      st\<lparr>trace := trace st @
          [Request POST ''/profile'' (ProfileBody (form s)),
           ToastSuccess ''Profile saved!'',
           Request POST ''/analyze'' (AnalyzeBody (profile_id profileResponse))]
          @ unauthorized_redirect error (pathname st)
          @ [ConsoleError ''Error:'', ToastError (error_notice error)]\<rparr>)"
  using assms
  by (simp add: handleSubmit_def saveProfile_def runAnalysis_def api_request_Rejected
      api_request_Resolved submit_catch_def submit_finally_def emit_def Let_def)

lemma handleSubmit_Resolved:
  assumes "post_profile b (form s) = Resolved profileResponse"
    and "post_analyze b (profile_id profileResponse) = Resolved analysisResponse"
  shows "handleSubmit b (s, st) =
     (s\<lparr>isSubmitting := False, isAnalyzing := False\<rparr>,
      set_location (''/results/'' @ report_id analysisResponse)
       (st\<lparr>trace := trace st @
          [Request POST ''/profile'' (ProfileBody (form s)),
           ToastSuccess ''Profile saved!'',
           Request POST ''/analyze'' (AnalyzeBody (profile_id profileResponse)),
           ToastSuccess ''Analysis complete!'',
           Navigate (''/results/'' @ report_id analysisResponse)]\<rparr>))"
  using assms
  by (simp add: handleSubmit_def saveProfile_def runAnalysis_def
      api_request_Resolved submit_finally_def emit_def navigate_def Let_def)

lemma trace_set_location: "trace (set_location url st) = trace st"
  by (simp add: set_location_def Let_def)

lemma events_since_set_location:
  "events_since st (set_location url st') = events_since st st'"
  by (simp add: events_since_def trace_set_location)

lemma no_analysis_in_redirect: "filter is_run_analysis (unauthorized_redirect error p) = []"
  by (simp add: unauthorized_redirect_def)

text \<open>
  C2. When "save profile" is rejected, the submission issues no "run analysis" request,
  leaves the step index and the draft profile as they were, and does not show the
  analysing screen; after the request its only effects are the client's redirect on
  status 401, the console message and the error notice. In every run, a "run analysis"
  request carries the identifier that a resolved "save profile" returned, and stands in
  the trace after the "save profile" request and its success notice.
\<close>

theorem save_failure_stops_submission:
  assumes run: "handleSubmit b (s, st) = (s', st')"
  shows "(\<forall>error. post_profile b (form s) = Rejected error \<longrightarrow>
            filter is_run_analysis (events_since st st') = []
            \<and> currentStep s' = currentStep s
            \<and> form s' = form s
            \<and> \<not> isAnalyzing s'
            \<and> events_since st st' =
                 Request POST ''/profile'' (ProfileBody (form s))
                 # unauthorized_redirect error (pathname st)
                 @ [ConsoleError ''Error:'', ToastError (error_notice error)])
     \<and> (\<forall>e \<in> set (events_since st st'). is_run_analysis e \<longrightarrow>
            (\<exists>profileResponse after.
               post_profile b (form s) = Resolved profileResponse
               \<and> e = Request POST ''/analyze'' (AnalyzeBody (profile_id profileResponse))
               \<and> events_since st st' =
                   [Request POST ''/profile'' (ProfileBody (form s)),
                    ToastSuccess ''Profile saved!''] @ e # after))"
proof (intro conjI allI impI ballI)
  fix error
  assume rej: "post_profile b (form s) = Rejected error"
  from handleSubmit_save_Rejected [OF rej, of st] run
  have s': "s' = s\<lparr>isSubmitting := False, isAnalyzing := False\<rparr>"
    and ev: "events_since st st' =
                 Request POST ''/profile'' (ProfileBody (form s))
                 # unauthorized_redirect error (pathname st)
                 @ [ConsoleError ''Error:'', ToastError (error_notice error)]"
    by (simp_all add: events_since_append)
  from ev show "filter is_run_analysis (events_since st st') = []"
    by (simp add: no_analysis_in_redirect)
  from s' show "currentStep s' = currentStep s" by simp
  from s' show "form s' = form s" by simp
  from s' show "\<not> isAnalyzing s'" by simp
  from ev show "events_since st st' =
                 Request POST ''/profile'' (ProfileBody (form s))
                 # unauthorized_redirect error (pathname st)
                 @ [ConsoleError ''Error:'', ToastError (error_notice error)]" .
next
  fix e
  assume mem: "e \<in> set (events_since st st')" and an: "is_run_analysis e"
  show "\<exists>profileResponse after.
               post_profile b (form s) = Resolved profileResponse
               \<and> e = Request POST ''/analyze'' (AnalyzeBody (profile_id profileResponse))
               \<and> events_since st st' =
                   [Request POST ''/profile'' (ProfileBody (form s)),
                    ToastSuccess ''Profile saved!''] @ e # after"
  proof (cases "post_profile b (form s)")
    case (Rejected error)
    from handleSubmit_save_Rejected [OF Rejected, of st] run
    have "events_since st st' =
                 Request POST ''/profile'' (ProfileBody (form s))
                 # unauthorized_redirect error (pathname st)
                 @ [ConsoleError ''Error:'', ToastError (error_notice error)]"
      by (simp add: events_since_append)
    with mem an have False
      by (auto simp: unauthorized_redirect_def split: if_splits)
    then show ?thesis ..
  next
    case (Resolved profileResponse)
    show ?thesis
    proof (cases "post_analyze b (profile_id profileResponse)")
      case (Rejected error)
      from handleSubmit_analysis_Rejected [OF Resolved Rejected, of st] run
      have ev: "events_since st st' =
          [Request POST ''/profile'' (ProfileBody (form s)),
           ToastSuccess ''Profile saved!'',
           Request POST ''/analyze'' (AnalyzeBody (profile_id profileResponse))]
          @ unauthorized_redirect error (pathname st)
          @ [ConsoleError ''Error:'', ToastError (error_notice error)]"
        by (simp add: events_since_append)
      with mem an have "e = Request POST ''/analyze'' (AnalyzeBody (profile_id profileResponse))"
        by (auto simp: unauthorized_redirect_def split: if_splits)
      with ev Resolved show ?thesis by simp
    next
      case inner: (Resolved analysisResponse)
      from handleSubmit_Resolved [OF Resolved inner, of st] run
      have ev: "events_since st st' =
          [Request POST ''/profile'' (ProfileBody (form s)),
           ToastSuccess ''Profile saved!'',
           Request POST ''/analyze'' (AnalyzeBody (profile_id profileResponse)),
           ToastSuccess ''Analysis complete!'',
           Navigate (''/results/'' @ report_id analysisResponse)]"
        by (auto simp: events_since_set_location events_since_append)
      with mem an have "e = Request POST ''/analyze'' (AnalyzeBody (profile_id profileResponse))"
        by auto
      with ev Resolved show ?thesis by simp
    qed
  qed
qed

theorem save_failure_stops_submission_witness:
  "(case handleSubmit sample_backend (initialOnboarding\<lparr>currentStep := 5\<rparr>, signed_in ''/onboarding'') of
      (s', st') \<Rightarrow>
        currentStep s' = 5 \<and> form s' = initialFormData
        \<and> events_since (signed_in ''/onboarding'') st' =
             [Request POST ''/profile'' (ProfileBody initialFormData),
              LocationAssign ''/'',
              ConsoleError ''Error:'',
              ToastError ''Something went wrong''])
   \<and> (case handleSubmit accepting_backend (initialOnboarding\<lparr>currentStep := 5\<rparr>, signed_in ''/onboarding'') of
      (s', st') \<Rightarrow>
        (\<exists>after. events_since (signed_in ''/onboarding'') st' =
           [Request POST ''/profile'' (ProfileBody initialFormData),
            ToastSuccess ''Profile saved!'',
            Request POST ''/analyze'' (AnalyzeBody ''p1'')] @ after))"
proof -
  let ?s = "initialOnboarding\<lparr>currentStep := 5\<rparr>"
  let ?st = "signed_in ''/onboarding''"
  obtain s1 st1 where run1: "handleSubmit sample_backend (?s, ?st) = (s1, st1)"
    by (cases "handleSubmit sample_backend (?s, ?st)")
  have rej: "post_profile sample_backend (form ?s) = Rejected unauthorized"
    by (simp add: sample_backend_def)
  from save_failure_stops_submission [OF run1] rej
  have a: "currentStep s1 = 5 \<and> form s1 = initialFormData
        \<and> events_since ?st st1 =
             [Request POST ''/profile'' (ProfileBody initialFormData),
              LocationAssign ''/'',
              ConsoleError ''Error:'',
              ToastError ''Something went wrong'']"
    by (simp add: initialOnboarding_def unauthorized_redirect_def unauthorized_def signed_in_def
        error_notice_def)
  obtain s2 st2 where run2: "handleSubmit accepting_backend (?s, ?st) = (s2, st2)"
    by (cases "handleSubmit accepting_backend (?s, ?st)")
  have mem: "Request POST ''/analyze'' (AnalyzeBody ''p1'') \<in> set (events_since ?st st2)"
    using run2
    by (auto simp: handleSubmit_def saveProfile_def runAnalysis_def api_request_def emit_def
        navigate_def set_location_def submit_finally_def accepting_backend_def signed_in_def
        events_since_def Let_def)
  have an: "is_run_analysis (Request POST ''/analyze'' (AnalyzeBody ''p1''))" by simp
  from save_failure_stops_submission [OF run2] mem an
  have "\<exists>profileResponse after.
          post_profile accepting_backend (form ?s) = Resolved profileResponse
          \<and> Request POST ''/analyze'' (AnalyzeBody ''p1'') =
              Request POST ''/analyze'' (AnalyzeBody (profile_id profileResponse))
          \<and> events_since ?st st2 =
              [Request POST ''/profile'' (ProfileBody (form ?s)), ToastSuccess ''Profile saved!'']
              @ Request POST ''/analyze'' (AnalyzeBody ''p1'') # after"
    by blast
  then have b: "\<exists>after. events_since ?st st2 =
           [Request POST ''/profile'' (ProfileBody initialFormData),
            ToastSuccess ''Profile saved!'',
            Request POST ''/analyze'' (AnalyzeBody ''p1'')] @ after"
    by (auto simp: initialOnboarding_def)
  from a b run1 run2 show ?thesis by simp
qed

text \<open>
  C5. When "save profile" resolves with identifier \<open>p1\<close> and "run analysis", called
  with \<open>p1\<close>, resolves with report identifier \<open>r1\<close>, the submission issues exactly
  one "run analysis" request, with the payload \<open>{ profile_id: p1 }\<close>, and ends by
  navigating to \<open>/results/r1\<close>.
\<close>

theorem submission_success_navigates_to_report:
  assumes save: "post_profile b (form s) = Resolved \<lparr> profile_id = p1 \<rparr>"
    and analysis: "post_analyze b p1 = Resolved \<lparr> report_id = r1 \<rparr>"
    and run: "handleSubmit b (s, st) = (s', st')"
  shows "filter is_run_analysis (events_since st st') =
           [Request POST ''/analyze'' (AnalyzeBody p1)]
     \<and> last (events_since st st') = Navigate (''/results/'' @ r1)
     \<and> events_since st st' =
          [Request POST ''/profile'' (ProfileBody (form s)),
           ToastSuccess ''Profile saved!'',
           Request POST ''/analyze'' (AnalyzeBody p1),
           ToastSuccess ''Analysis complete!'',
           Navigate (''/results/'' @ r1)]"
proof -
  from analysis have analysis': "post_analyze b (profile_id \<lparr> profile_id = p1 \<rparr>) = Resolved \<lparr> report_id = r1 \<rparr>"
    by simp
  from handleSubmit_Resolved [OF save analysis', of st] run
  have ev: "events_since st st' =
          [Request POST ''/profile'' (ProfileBody (form s)),
           ToastSuccess ''Profile saved!'',
           Request POST ''/analyze'' (AnalyzeBody p1),
           ToastSuccess ''Analysis complete!'',
           Navigate (''/results/'' @ r1)]"
    by (auto simp: events_since_set_location events_since_append)
  then show ?thesis by simp
qed

theorem submission_success_navigates_to_report_witness:
  "(case handleSubmit accepting_backend (initialOnboarding\<lparr>currentStep := 5\<rparr>, signed_in ''/onboarding'') of
      (s', st') \<Rightarrow>
        events_since (signed_in ''/onboarding'') st' =
           [Request POST ''/profile'' (ProfileBody initialFormData),
            ToastSuccess ''Profile saved!'',
            Request POST ''/analyze'' (AnalyzeBody ''p1''),
            ToastSuccess ''Analysis complete!'',
            Navigate ''/results/r1''])"
proof -
  let ?s = "initialOnboarding\<lparr>currentStep := 5\<rparr>"
  let ?st = "signed_in ''/onboarding''"
  obtain s' st' where run: "handleSubmit accepting_backend (?s, ?st) = (s', st')"
    by (cases "handleSubmit accepting_backend (?s, ?st)")
  have save: "post_profile accepting_backend (form ?s) = Resolved \<lparr> profile_id = ''p1'' \<rparr>"
    by (simp add: accepting_backend_def)
  have analysis: "post_analyze accepting_backend ''p1'' = Resolved \<lparr> report_id = ''r1'' \<rparr>"
    by (simp add: accepting_backend_def)
  from submission_success_navigates_to_report [OF save analysis run]
  have "events_since ?st st' =
           [Request POST ''/profile'' (ProfileBody initialFormData),
            ToastSuccess ''Profile saved!'',
            Request POST ''/analyze'' (AnalyzeBody ''p1''),
            ToastSuccess ''Analysis complete!'',
            Navigate ''/results/r1'']"
    by (simp add: initialOnboarding_def)
  with run show ?thesis by simp
qed

section \<open>Bootstrap from a fragment token\<close>

lemma split_on_absent: "d \<notin> set s \<Longrightarrow> split_on d s = [s]"
  by (induction s) auto

lemma percent_decode_plain: "CHR ''%'' \<notin> set s \<Longrightarrow> percent_decode s = s"
  by (induction s rule: percent_decode.induct) auto

lemma plus_to_space_plain: "CHR ''+'' \<notin> set s \<Longrightarrow> plus_to_space s = s"
  by (induction s) (auto simp: plus_to_space_def)

lemma utf8_decode_ascii:
  "\<forall>c \<in> set s. (of_char c :: nat) \<le> 0x7F \<Longrightarrow> utf8_decode_from 0 seen lower upper s = s"
  by (induction s arbitrary: seen lower upper) simp_all

lemma string_includes_append: "string_includes (p @ search @ rest) search"
proof (induction p)
  case Nil
  have "starts_with (search @ rest) search" by (simp add: starts_with_def)
  then show ?case by (cases "search @ rest") simp_all
next
  case (Cons c p)
  then show ?case by simp
qed

text \<open>
  A fragment \<open>#session_id=\<close> followed by an ASCII token that is not empty and has no
  \<open>&\<close>, \<open>+\<close> or \<open>%\<close> in it contains \<open>session_id=\<close>, and its
  \<open>session_id\<close> parameter is the token as written.
\<close>

lemma plain_token_fragment:
  assumes "token \<noteq> []"
    and "\<forall>c \<in> set token. (of_char c :: nat) \<le> 0x7F"
    and "CHR ''&'' \<notin> set token" and "CHR ''+'' \<notin> set token" and "CHR ''%'' \<notin> set token"
  shows "string_includes (''#session_id='' @ token) ''session_id=''"
    and "URLSearchParams_get (URLSearchParams (drop 1 (''#session_id='' @ token))) ''session_id''
           = Some token"
proof -
  show "string_includes (''#session_id='' @ token) ''session_id=''"
    using string_includes_append [of "''#''" "''session_id=''" token] by simp
  have amp: "CHR ''&'' \<notin> set (''session_id='' @ token)"
    using assms(3) by simp
  have split: "split_on CHR ''&'' (''session_id='' @ token) = [''session_id='' @ token]"
    using amp by (rule split_on_absent)
  have name: "utf8_decode ''session_id'' = ''session_id''"
    by (simp add: utf8_decode_def)
  have val: "utf8_decode token = token"
    using assms(2) by (simp add: utf8_decode_def utf8_decode_ascii)
  have pair: "parse_pair (''session_id='' @ token) = (''session_id'', token)"
    using assms(4,5) name val
    by (simp add: parse_pair_def Let_def percent_decode_plain plus_to_space_plain)
  have "URLSearchParams (''session_id='' @ token) = [(''session_id'', token)]"
    unfolding URLSearchParams_def Let_def using split pair by simp
  then show "URLSearchParams_get (URLSearchParams (drop 1 (''#session_id='' @ token))) ''session_id''
           = Some token"
    by simp
qed

lemma no_request_in_redirect: "filter is_request (unauthorized_redirect error p) = []"
  by (simp add: unauthorized_redirect_def)

lemma string_includes_nonempty: "string_includes s (c # cs) \<Longrightarrow> s \<noteq> []"
  by (cases s) simp_all

lemma handleAuth_token:
  assumes inc: "string_includes fragment ''session_id=''"
    and get: "URLSearchParams_get (URLSearchParams (drop 1 fragment)) ''session_id'' = Some token"
    and tok: "token \<noteq> ''''"
  shows "handleAuth b (initial_app path fragment) =
           processSessionId b token (initial_app path fragment)"
proof -
  from inc have "fragment \<noteq> []" by (rule string_includes_nonempty)
  with inc get tok show ?thesis
    by (simp add: handleAuth_def initial_app_def)
qed

lemma processSessionId_Resolved:
  assumes "post_auth_session b token = Resolved data"
  shows "processSessionId b token (initial_app path fragment) =
     \<lparr> user = Some data, loading = False, pathname = ''/dashboard'', hash = '''',
       trace = [Request POST ''/auth/session'' (SessionBody token),
                ReplaceState path, Navigate ''/dashboard''] \<rparr>"
  using assms
  by (simp add: processSessionId_def api_request_Resolved navigate_def replaceState_def
      set_location_def emit_def initial_app_def Let_def)

lemma processSessionId_Rejected:
  assumes "post_auth_session b token = Rejected error"
  shows "processSessionId b token (initial_app path fragment) =
     \<lparr> user = None, loading = False, pathname = ''/'', hash = '''',
       trace = Request POST ''/auth/session'' (SessionBody token)
               # unauthorized_redirect error path
               @ [ConsoleError ''Session processing failed:'', Navigate ''/''] \<rparr>"
  using assms
  by (simp add: processSessionId_def api_request_Rejected navigate_def
      set_location_def emit_def initial_app_def Let_def)

text \<open>
  One run of \<open>handleAuth\<close> on a freshly loaded page whose fragment contains
  \<open>session_id=\<close> and whose \<open>session_id\<close> parameter is a non-empty token: the
  run issues one request, the token exchange with that token. When the exchange
  resolves, the run ends Authenticated, with the URL replaced by the bare path and a
  navigation to \<open>/dashboard\<close>; when it is rejected, the run ends Anonymous with a
  navigation to the public entry view.
\<close>

lemma handleAuth_with_fragment_token:
  assumes inc: "string_includes fragment ''session_id=''"
    and get: "URLSearchParams_get (URLSearchParams (drop 1 fragment)) ''session_id'' = Some token"
    and tok: "token \<noteq> ''''"
  shows "filter is_request (trace (handleAuth b (initial_app path fragment))) =
           [Request POST ''/auth/session'' (SessionBody token)]
     \<and> (\<forall>data. post_auth_session b token = Resolved data \<longrightarrow>
           handleAuth b (initial_app path fragment) =
             \<lparr> user = Some data, loading = False, pathname = ''/dashboard'', hash = '''',
               trace = [Request POST ''/auth/session'' (SessionBody token),
                        ReplaceState path, Navigate ''/dashboard''] \<rparr>
           \<and> phase (handleAuth b (initial_app path fragment)) = Authenticated)
     \<and> (\<forall>error. post_auth_session b token = Rejected error \<longrightarrow>
           handleAuth b (initial_app path fragment) =
             \<lparr> user = None, loading = False, pathname = ''/'', hash = '''',
               trace = Request POST ''/auth/session'' (SessionBody token)
                       # unauthorized_redirect error path
                       @ [ConsoleError ''Session processing failed:'', Navigate ''/''] \<rparr>
           \<and> phase (handleAuth b (initial_app path fragment)) = Anonymous)"
proof -
  note run = handleAuth_token [OF inc get tok, of b path]
  show ?thesis
  proof (cases "post_auth_session b token")
    case (Resolved data)
    from processSessionId_Resolved [OF Resolved, of path fragment] run Resolved
    show ?thesis by (simp add: phase_def)
  next
    case (Rejected error)
    from processSessionId_Rejected [OF Rejected, of path fragment] run Rejected
    show ?thesis by (simp add: phase_def no_request_in_redirect)
  qed
qed

subsection \<open>Re-runs of the mount effect\<close>

lemma checkSession_location:
  "pathname (checkSession b st) = pathname st \<and> hash (checkSession b st) = hash st"
  by (cases "get_auth_me b")
    (simp_all add: checkSession_def api_request_Resolved api_request_Rejected)

lemma processSessionId_hash: "hash (processSessionId b sessionId st) = []"
  by (cases "post_auth_session b sessionId")
    (simp_all add: processSessionId_def api_request_Resolved api_request_Rejected
      navigate_def set_location_def Let_def)

lemma handleAuth_path_changed:
  assumes "pathname (handleAuth b st) \<noteq> pathname st"
  shows "hash st \<noteq> [] \<and> hash (handleAuth b st) = []"
proof (cases "handleAuth b st = checkSession b st")
  case True
  with assms checkSession_location [of b st] show ?thesis by simp
next
  case False
  then obtain sessionId where run: "handleAuth b st = processSessionId b sessionId st"
    and "hash st \<noteq> []"
    by (auto simp: handleAuth_def split: if_splits option.splits)
  then show ?thesis by (simp add: processSessionId_hash)
qed

termination handleAuth_effect
proof (relation "measure (\<lambda>(b, st). if hash st = [] then 0 else 1)")
  show "wf (measure (\<lambda>(b, st). if hash st = [] then 0 else (1::nat)))"
    by simp
next
  fix b :: backend and st :: app_state
  assume "pathname (handleAuth b st) \<noteq> pathname st"
  then have "hash st \<noteq> [] \<and> hash (handleAuth b st) = []"
    by (rule handleAuth_path_changed)
  then show "((b, handleAuth b st), (b, st)) \<in> measure (\<lambda>(b, st). if hash st = [] then 0 else (1::nat))"
    by simp
qed

declare handleAuth_effect.simps [simp del]

text \<open>
  C3. On a page freshly loaded at \<open>/#session_id=abc123\<close>, with a backend that
  accepts the exchange, the bootstrap does not stop after the token exchange: the
  navigation to \<open>/dashboard\<close> changes the path, the mount effect runs again, now
  without a fragment, and issues the session resolution \<open>GET /auth/me\<close>. The
  bootstrap makes two requests, where the first run alone makes one.
\<close>

theorem bootstrap_reruns_session_check:
  "handleAuth_effect accepting_backend (initial_app ''/'' ''#session_id=abc123'') =
     \<lparr> user = Some sample_user, loading = False, pathname = ''/dashboard'', hash = '''',
       trace = [Request POST ''/auth/session'' (SessionBody ''abc123''),
                ReplaceState ''/'',
                Navigate ''/dashboard'',
                Request GET ''/auth/me'' NoBody] \<rparr>
   \<and> filter is_request
        (trace (handleAuth_effect accepting_backend (initial_app ''/'' ''#session_id=abc123''))) =
       [Request POST ''/auth/session'' (SessionBody ''abc123''),
        Request GET ''/auth/me'' NoBody]
   \<and> filter is_request
        (trace (handleAuth accepting_backend (initial_app ''/'' ''#session_id=abc123''))) =
       [Request POST ''/auth/session'' (SessionBody ''abc123'')]"
proof -
  let ?st0 = "\<lparr> user = None, loading = True, pathname = ''/'',
                hash = ''#session_id=abc123'', trace = [] \<rparr>"
  let ?st1 = "\<lparr> user = Some sample_user, loading = False, pathname = ''/dashboard'',
                hash = '''',
                trace = [Request POST ''/auth/session'' (SessionBody ''abc123''),
                         ReplaceState ''/'', Navigate ''/dashboard''] \<rparr>"
  let ?st2 = "\<lparr> user = Some sample_user, loading = False, pathname = ''/dashboard'',
                hash = '''',
                trace = [Request POST ''/auth/session'' (SessionBody ''abc123''),
                         ReplaceState ''/'', Navigate ''/dashboard'',
                         Request GET ''/auth/me'' NoBody] \<rparr>"
  have inc: "string_includes ''#session_id=abc123'' ''session_id=''"
    by (simp add: starts_with_def)
  have get: "URLSearchParams_get (URLSearchParams (drop 1 ''#session_id=abc123'')) ''session_id''
      = Some ''abc123''"
    by (simp add: URLSearchParams_def parse_pair_def plus_to_space_def utf8_decode_def Let_def)
  have ok: "post_auth_session accepting_backend ''abc123'' = Resolved sample_user"
    by (simp add: accepting_backend_def)
  have run1: "handleAuth accepting_backend ?st0 = ?st1"
    using handleAuth_token [OF inc get, of accepting_backend "''/''"]
      processSessionId_Resolved [OF ok, of "''/''" "''#session_id=abc123''"]
    by (simp add: initial_app_def)
  have run2: "handleAuth accepting_backend ?st1 = ?st2"
    by (simp add: handleAuth_def checkSession_def api_request_def emit_def
        accepting_backend_def)
  have "handleAuth_effect accepting_backend ?st0 = handleAuth_effect accepting_backend ?st1"
    by (subst handleAuth_effect.simps) (simp add: run1)
  also have "\<dots> = ?st2"
    by (subst handleAuth_effect.simps) (simp add: run2)
  finally have total: "handleAuth_effect accepting_backend ?st0 = ?st2" .
  show ?thesis by (simp add: initial_app_def total run1)
qed

end
